theory Spec2Isabelle
  imports Complex_Main
begin

section \<open>Trading pipeline terminal UI: the model of main.go\<close>

text \<open>
  The source is one Go file holding the program entry point and the two Bubble Tea
  models of the terminal UI: the coin selection list and the real-time dashboard.
  Go's \<open>int\<close> is modelled by \<open>int\<close>; every increment and decrement of the source is
  guarded by a comparison that keeps it inside the 64-bit range.
\<close>

subsection \<open>float64\<close>

text \<open>
  A \<open>float64\<close> of the dashboard is a finite value, one of the two infinities, or NaN.
  The operations follow IEEE 754 on the special values: NaN propagates and compares
  false with everything, a finite value divided by an infinity is 0, an infinity minus
  or divided by an infinity is NaN, and a division by 0 gives NaN or an infinity. The
  result of an operation on finite values is an infinity when its magnitude reaches
  \<open>2^1024 - 2^970\<close>, from where rounding to nearest leaves the range of the type.
  Below that the model keeps the exact result: the rounding to 53 bits and the sign of
  zero are not modelled.
\<close>

datatype float64 = Fin real | PInf | NInf | NaN

text \<open>The largest finite value, \<open>math.MaxFloat64\<close>.\<close>

definition MaxFloat64 :: real where
  "MaxFloat64 = (2 ^ 53 - 1) * 2 ^ 971"

definition overflow_threshold :: real where
  "overflow_threshold = 2 ^ 1024 - 2 ^ 970"

definition round64 :: "real \<Rightarrow> float64" where
  "round64 r =
     (if overflow_threshold \<le> r then PInf
      else if r \<le> - overflow_threshold then NInf
      else Fin r)"

text \<open>\<open>a - b\<close>\<close>

fun fsub :: "float64 \<Rightarrow> float64 \<Rightarrow> float64" where
  "fsub NaN _ = NaN"
| "fsub _ NaN = NaN"
| "fsub (Fin x) (Fin y) = round64 (x - y)"
| "fsub (Fin x) PInf = NInf"
| "fsub (Fin x) NInf = PInf"
| "fsub PInf (Fin y) = PInf"
| "fsub NInf (Fin y) = NInf"
| "fsub PInf NInf = PInf"
| "fsub NInf PInf = NInf"
| "fsub PInf PInf = NaN"
| "fsub NInf NInf = NaN"

text \<open>\<open>a * b\<close>\<close>

fun fmul :: "float64 \<Rightarrow> float64 \<Rightarrow> float64" where
  "fmul NaN _ = NaN"
| "fmul _ NaN = NaN"
| "fmul (Fin x) (Fin y) = round64 (x * y)"
| "fmul (Fin x) PInf = (if x = 0 then NaN else if 0 < x then PInf else NInf)"
| "fmul (Fin x) NInf = (if x = 0 then NaN else if 0 < x then NInf else PInf)"
| "fmul PInf (Fin y) = (if y = 0 then NaN else if 0 < y then PInf else NInf)"
| "fmul NInf (Fin y) = (if y = 0 then NaN else if 0 < y then NInf else PInf)"
| "fmul PInf PInf = PInf"
| "fmul NInf NInf = PInf"
| "fmul PInf NInf = NInf"
| "fmul NInf PInf = NInf"

text \<open>\<open>a / b\<close>: a float division never panics; at divisor 0 it gives NaN or an infinity.\<close>

fun fdiv :: "float64 \<Rightarrow> float64 \<Rightarrow> float64" where
  "fdiv NaN _ = NaN"
| "fdiv _ NaN = NaN"
| "fdiv (Fin x) (Fin y) =
     (if y = 0 then (if x = 0 then NaN else if 0 < x then PInf else NInf)
      else round64 (x / y))"
| "fdiv (Fin x) PInf = Fin 0"
| "fdiv (Fin x) NInf = Fin 0"
| "fdiv PInf (Fin y) = (if 0 \<le> y then PInf else NInf)"
| "fdiv NInf (Fin y) = (if 0 \<le> y then NInf else PInf)"
| "fdiv PInf PInf = NaN"
| "fdiv PInf NInf = NaN"
| "fdiv NInf PInf = NaN"
| "fdiv NInf NInf = NaN"

text \<open>\<open>a < b\<close>, \<open>a > b\<close> and \<open>a == b\<close>\<close>

fun flt :: "float64 \<Rightarrow> float64 \<Rightarrow> bool" where
  "flt NaN _ = False"
| "flt _ NaN = False"
| "flt (Fin x) (Fin y) = (x < y)"
| "flt (Fin x) PInf = True"
| "flt (Fin x) NInf = False"
| "flt PInf _ = False"
| "flt NInf (Fin y) = True"
| "flt NInf PInf = True"
| "flt NInf NInf = False"

definition fgt :: "float64 \<Rightarrow> float64 \<Rightarrow> bool" where
  "fgt a b = flt b a"

definition feq :: "float64 \<Rightarrow> float64 \<Rightarrow> bool" where
  "feq a b = (a \<noteq> NaN \<and> a = b)"

fun is_finite :: "float64 \<Rightarrow> bool" where
  "is_finite (Fin x) = True"
| "is_finite _ = False"

text \<open>
  Go's conversion \<open>int(x)\<close> of a float: the fraction is dropped, towards zero. When the
  value is NaN, an infinity, or outside the 64-bit \<open>int\<close>, the language leaves the result
  to the implementation; \<open>int_indefinite\<close> is what the conversion instruction of amd64
  returns, the smallest \<open>int\<close>.
\<close>

definition int_indefinite :: int where
  "int_indefinite = - (2 ^ 63)"

definition int_of_float64 :: "float64 \<Rightarrow> int" where
  "int_of_float64 f =
     (case f of
        Fin x \<Rightarrow>
          (let t = (if 0 \<le> x then \<lfloor>x\<rfloor> else \<lceil>x\<rceil>)
           in if - (2 ^ 63) \<le> t \<and> t < 2 ^ 63 then t else int_indefinite)
      | PInf \<Rightarrow> int_indefinite
      | NInf \<Rightarrow> int_indefinite
      | NaN \<Rightarrow> int_indefinite)"

subsection \<open>The coins table and the lookup helpers\<close>

record coin =
  symbol :: string
  name :: string
  short :: string

definition coins :: "coin list" where
  "coins =
    [\<lparr>symbol = ''btcusdt'', name = ''Bitcoin (BTC)'', short = ''BTC''\<rparr>,
     \<lparr>symbol = ''ethusdt'', name = ''Ethereum (ETH)'', short = ''ETH''\<rparr>,
     \<lparr>symbol = ''solusdt'', name = ''Solana (SOL)'', short = ''SOL''\<rparr>,
     \<lparr>symbol = ''bnbusdt'', name = ''Binance Coin (BNB)'', short = ''BNB''\<rparr>,
     \<lparr>symbol = ''xrpusdt'', name = ''Ripple (XRP)'', short = ''XRP''\<rparr>,
     \<lparr>symbol = ''dogeusdt'', name = ''Dogecoin (DOGE)'', short = ''DOGE''\<rparr>]"

text \<open>The \<open>for _, coin := range coins\<close> loop of \<open>GetCoinName\<close>: first match wins.\<close>

fun GetCoinName_loop :: "coin list \<Rightarrow> string \<Rightarrow> string" where
  "GetCoinName_loop [] sy = sy"
| "GetCoinName_loop (c # cs) sy =
     (if symbol c = sy then name c else GetCoinName_loop cs sy)"

definition GetCoinName :: "string \<Rightarrow> string" where
  "GetCoinName sy = GetCoinName_loop coins sy"

fun GetCoinShort_loop :: "coin list \<Rightarrow> string \<Rightarrow> string" where
  "GetCoinShort_loop [] sy = sy"
| "GetCoinShort_loop (c # cs) sy =
     (if symbol c = sy then short c else GetCoinShort_loop cs sy)"

definition GetCoinShort :: "string \<Rightarrow> string" where
  "GetCoinShort sy = GetCoinShort_loop coins sy"

subsection \<open>Messages, commands and panics\<close>

text \<open>
  \<open>time.Time\<close> is an instant counted in nanoseconds from Go's zero instant, so the zero
  value of the type, which \<open>IsZero\<close> reports as unset, is \<open>0\<close>.
\<close>

type_synonym Time = int

record PriceData =
  Price :: float64
  PrevPrice :: float64
  High :: float64
  Low :: float64
  MovingAverage :: float64
  Change :: float64
  ChangePercent :: float64
  UpdatedAt :: Time

text \<open>
  A \<open>tea.Msg\<close> is one of the three message types the models switch on, or anything
  else. A key message carries the text that \<open>msg.String()\<close> returns.
\<close>

datatype msg = KeyMsg string | tickMsg Time | priceMsg PriceData | OtherMsg

text \<open>
  A \<open>tea.Cmd\<close>. \<open>fetchPrice\<close> returns a closure over the model it was called on;
  the command keeps that model.
\<close>

datatype 'm cmd = CmdNil | Quit | Batch "'m cmd list" | fetchPriceCmd 'm | tickCmd

datatype panic = IndexOutOfRange

subsection \<open>Coin selection model\<close>

record selectModel =
  cursor :: int
  selected :: string
  done_flag :: bool

text \<open>\<open>coins[i]\<close>, with Go's run-time bounds check.\<close>

definition coins_at :: "int \<Rightarrow> panic + coin" where
  "coins_at i =
     (if 0 \<le> i \<and> i < int (length coins) then Inr (coins ! nat i) else Inl IndexOutOfRange)"

fun selectModel_Update :: "selectModel \<Rightarrow> msg \<Rightarrow> panic + (selectModel \<times> 'm cmd)" where
  "selectModel_Update m (KeyMsg s) =
     (if s = ''ctrl+c'' \<or> s = ''q'' then Inr (m\<lparr>done_flag := True\<rparr>, Quit)
      else if s = ''up'' \<or> s = ''k'' then
        Inr (if cursor m > 0 then m\<lparr>cursor := cursor m - 1\<rparr> else m, CmdNil)
      else if s = ''down'' \<or> s = ''j'' then
        Inr (if cursor m < int (length coins) - 1 then m\<lparr>cursor := cursor m + 1\<rparr> else m,
             CmdNil)
      else if s = ''enter'' \<or> s = '' '' then
        (case coins_at (cursor m) of
           Inl e \<Rightarrow> Inl e
         | Inr c \<Rightarrow> Inr (m\<lparr>selected := symbol c, done_flag := True\<rparr>, Quit))
      else Inr (m, CmdNil))"
| "selectModel_Update m _ = Inr (m, CmdNil)"

text \<open>The model \<open>RunTUI\<close> starts from: \<open>selectModel{cursor: 0}\<close>.\<close>

definition selectModel_init :: selectModel where
  "selectModel_init = \<lparr>cursor = 0, selected = [], done_flag = False\<rparr>"

text \<open>
  Feeding a sequence of messages to the model, as the Bubble Tea event loop does. A panic
  ends the run. The commands returned are dropped, so the run also covers every message
  that arrives after a quit command was issued.
\<close>

fun selectModel_run :: "selectModel \<Rightarrow> msg list \<Rightarrow> panic + selectModel" where
  "selectModel_run m [] = Inr m"
| "selectModel_run m (x # xs) =
     (case (selectModel_Update m x :: panic + (selectModel \<times> unit cmd)) of
        Inl e \<Rightarrow> Inl e
      | Inr (m', c) \<Rightarrow> selectModel_run m' xs)"

subsection \<open>Dashboard model\<close>

text \<open>
  The \<open>Server\<close> type is declared outside this file; the model is parametric in it. The
  zero value of \<open>PriceData\<close> is what a struct literal that leaves \<open>data\<close> out holds.
\<close>

record 'srv dashboardModel =
  symbol_d :: string
  coinName :: string
  coinShort :: string
  data :: PriceData
  history :: "float64 list"
  server :: 'srv
  quitting :: bool

definition PriceData_zero :: PriceData where
  "PriceData_zero =
     \<lparr>Price = Fin 0, PrevPrice = Fin 0, High = Fin 0, Low = Fin 0, MovingAverage = Fin 0,
      Change = Fin 0, ChangePercent = Fin 0, UpdatedAt = 0\<rparr>"

definition newDashboardModel :: "string \<Rightarrow> 'srv \<Rightarrow> 'srv dashboardModel" where
  "newDashboardModel sy srv =
     \<lparr>symbol_d = sy, coinName = GetCoinName sy, coinShort = GetCoinShort sy,
      data = PriceData_zero, history = [], server = srv, quitting = False\<rparr>"

text \<open>
  What the closure of \<open>fetchPrice\<close> reads when it runs: \<open>m.server.GetPrice()\<close>,
  \<open>GetMovingAverage()\<close>, \<open>GetHigh()\<close>, \<open>GetLow()\<close> and \<open>time.Now()\<close>. These functions
  are declared outside this file, so their results are parameters of the model.
\<close>

record readings =
  GetPrice :: float64
  GetMovingAverage :: float64
  GetHigh :: float64
  GetLow :: float64
  time_Now :: Time

text \<open>
  The message the closure returns. \<open>change\<close> and \<open>changePercent\<close> are declared with
  \<open>var\<close>, so both are 0 unless the guard \<open>m.data.Price > 0\<close> holds; under the guard
  \<open>changePercent\<close> is \<open>(change / m.data.Price) * 100\<close>.
\<close>

definition fetchPrice :: "'srv dashboardModel \<Rightarrow> readings \<Rightarrow> msg" where
  "fetchPrice m r =
     (let price = GetPrice r;
          ma = GetMovingAverage r;
          high = GetHigh r;
          low = GetLow r;
          change =
            (if fgt (Price (data m)) (Fin 0) then fsub price (Price (data m)) else Fin 0);
          changePercent =
            (if fgt (Price (data m)) (Fin 0)
             then fmul (fdiv change (Price (data m))) (Fin 100) else Fin 0)
      in priceMsg
           \<lparr>Price = price, PrevPrice = Price (data m), High = high, Low = low,
            MovingAverage = ma, Change = change, ChangePercent = changePercent,
            UpdatedAt = time_Now r\<rparr>)"

fun dashboardModel_Update ::
  "'srv dashboardModel \<Rightarrow> msg \<Rightarrow> 'srv dashboardModel \<times> 'srv dashboardModel cmd" where
  "dashboardModel_Update m (KeyMsg s) =
     (if s = ''ctrl+c'' \<or> s = ''q'' then (m\<lparr>quitting := True\<rparr>, Quit) else (m, CmdNil))"
| "dashboardModel_Update m (tickMsg t) = (m, Batch [fetchPriceCmd m, tickCmd])"
| "dashboardModel_Update m (priceMsg d) =
     (let m1 = m\<lparr>data := d\<rparr>;
          m2 = (if fgt (Price d) (Fin 0) then
                  let m3 = m1\<lparr>history := history m1 @ [Price d]\<rparr>
                  in if length (history m3) > 20 then m3\<lparr>history := tl (history m3)\<rparr> else m3
                else m1)
      in (m2, CmdNil))"
| "dashboardModel_Update m OtherMsg = (m, CmdNil)"

text \<open>The event loop: each message goes to \<open>Update\<close>, which returns the next model.\<close>

fun dashboardModel_run :: "'srv dashboardModel \<Rightarrow> msg list \<Rightarrow> 'srv dashboardModel" where
  "dashboardModel_run m [] = m"
| "dashboardModel_run m (x # xs) = dashboardModel_run (fst (dashboardModel_Update m x)) xs"

fun is_priceMsg :: "msg \<Rightarrow> bool" where
  "is_priceMsg (priceMsg d) = True"
| "is_priceMsg _ = False"

subsection \<open>The sparkline\<close>

type_synonym rune = nat

datatype style = labelStyle | upStyle | downStyle | valueStyle

text \<open>\<open>style.Render(text)\<close>; the rendered string is the sequence of these pieces.\<close>

datatype styled = Render style "rune list"

definition chars :: "rune list" where
  "chars = [0x2581, 0x2582, 0x2583, 0x2584, 0x2585, 0x2586, 0x2587, 0x2588]"

definition chars_at :: "int \<Rightarrow> panic + rune" where
  "chars_at i =
     (if 0 \<le> i \<and> i < int (length chars) then Inr (chars ! nat i) else Inl IndexOutOfRange)"

definition waiting_for_data :: "rune list" where
  "waiting_for_data = map of_char ''waiting for data...''"

text \<open>The first loop: the two tests are independent statements.\<close>

fun minmax_loop :: "float64 list \<Rightarrow> float64 \<times> float64 \<Rightarrow> float64 \<times> float64" where
  "minmax_loop [] (mn, mx) = (mn, mx)"
| "minmax_loop (v # vs) (mn, mx) =
     minmax_loop vs (if flt v mn then v else mn, if fgt v mx then v else mx)"

text \<open>\<open>m.history[0]\<close> is read only after the test \<open>len(m.history) < 2\<close> has failed.\<close>

definition sparkline_minmax :: "float64 list \<Rightarrow> float64 \<times> float64" where
  "sparkline_minmax h = minmax_loop h (h ! 0, h ! 0)"

text \<open>\<open>rang := max - min\<close>, replaced by 1 when it compares equal to 0.\<close>

definition sparkline_rang :: "float64 list \<Rightarrow> float64" where
  "sparkline_rang h =
     (let (mn, mx) = sparkline_minmax h; rang = fsub mx mn
      in if feq rang (Fin 0) then Fin 1 else rang)"

text \<open>
  The index computed for one value, after the test \<open>idx >= len(chars)\<close>, which is the
  only test the source makes on it.
\<close>

definition glyph_index :: "float64 \<Rightarrow> float64 \<Rightarrow> float64 \<Rightarrow> int" where
  "glyph_index mn rang v =
     (let normalized = fdiv (fsub v mn) rang;
          idx = int_of_float64 (fmul normalized (Fin (real_of_int (int (length chars) - 1))))
      in if idx \<ge> int (length chars) then int (length chars) - 1 else idx)"

text \<open>The second loop, over the indices of the history; \<open>chars[idx]\<close> is bounds-checked.\<close>

fun spark_loop ::
  "float64 list \<Rightarrow> float64 \<Rightarrow> float64 \<Rightarrow> nat list \<Rightarrow> styled list \<Rightarrow> panic + styled list"
  where
  "spark_loop h mn rang [] spark = Inr spark"
| "spark_loop h mn rang (i # js) spark =
     (let v = h ! i in
      case chars_at (glyph_index mn rang v) of
        Inl e \<Rightarrow> Inl e
      | Inr c \<Rightarrow>
          if i > 0 \<and> fgt v (h ! (i - 1)) then
            spark_loop h mn rang js (spark @ [Render upStyle [c]])
          else if i > 0 \<and> flt v (h ! (i - 1)) then
            spark_loop h mn rang js (spark @ [Render downStyle [c]])
          else spark_loop h mn rang js (spark @ [Render valueStyle [c]]))"

definition renderSparkline :: "'srv dashboardModel \<Rightarrow> panic + styled list" where
  "renderSparkline m =
     (if length (history m) < 2 then Inr [Render labelStyle waiting_for_data]
      else spark_loop (history m) (fst (sparkline_minmax (history m)))
             (sparkline_rang (history m)) [0..<length (history m)] [])"

subsection \<open>Price updates and scenario values\<close>

text \<open>
  One price update: the closure that \<open>fetchPrice\<close> built on the model \<open>m0\<close> runs with
  the readings \<open>r\<close>, and \<open>Update\<close> applies its message to the current model \<open>m\<close>.
\<close>

definition fetch_update ::
  "'srv dashboardModel \<Rightarrow> readings \<Rightarrow> 'srv dashboardModel \<Rightarrow> 'srv dashboardModel" where
  "fetch_update m0 r m = fst (dashboardModel_Update m (fetchPrice m0 r))"

definition fresh_model :: "unit dashboardModel" where
  "fresh_model = newDashboardModel ''btcusdt'' ()"

definition model_at_95 :: "unit dashboardModel" where
  "model_at_95 = fresh_model\<lparr>data := PriceData_zero\<lparr>Price := Fin 95\<rparr>\<rparr>"

definition model_at_100 :: "unit dashboardModel" where
  "model_at_100 = fresh_model\<lparr>data := PriceData_zero\<lparr>Price := Fin 100\<rparr>\<rparr>"

definition first_readings :: readings where
  "first_readings =
     \<lparr>GetPrice = Fin 100, GetMovingAverage = Fin 100, GetHigh = Fin 100, GetLow = Fin 100,
      time_Now = 1\<rparr>"

definition readings_110 :: readings where
  "readings_110 =
     \<lparr>GetPrice = Fin 110, GetMovingAverage = Fin (205 / 2), GetHigh = Fin 110, GetLow = Fin 95,
      time_Now = 4\<rparr>"

definition readings_125 :: readings where
  "readings_125 =
     \<lparr>GetPrice = Fin 125, GetMovingAverage = Fin 125, GetHigh = Fin 125, GetLow = Fin 100,
      time_Now = 5\<rparr>"

definition tick_of :: "float64 \<Rightarrow> PriceData" where
  "tick_of p = PriceData_zero\<lparr>Price := p\<rparr>"

text \<open>
  Two price messages in a row, the second with the price \<open>+Inf\<close>; both pass the test
  \<open>msg.Price > 0\<close> of \<open>Update\<close> and enter the history.
\<close>

definition infinite_price_msgs :: "msg list" where
  "infinite_price_msgs = [priceMsg (tick_of (Fin 1)), priceMsg (tick_of PInf)]"

subsection \<open>The Aggregator\<close>

text \<open>
  Modelled from the spec: the Aggregator, that is the \<open>Server\<close> type behind
  \<open>UpdatePrice\<close>, \<open>GetPrice\<close>, \<open>GetHigh\<close>, \<open>GetLow\<close> and \<open>GetMovingAverage\<close>, is used by
  this file and declared outside it. The records follow section 3 of the spec: a tick,
  the snapshot of aggregated statistics with \<open>updatedAt\<close> unset before the first tick,
  and the rolling window with its capacity \<open>N\<close>. The spec states its properties in exact
  arithmetic (the exact arithmetic mean), so the prices of the Aggregator are real
  numbers.
\<close>

record Tick =
  tick_price :: real
  observedAt :: Time

record Snapshot =
  price :: real
  previousPrice :: real
  high :: real
  low :: real
  movingAverage :: real
  change :: real
  changePercent :: real
  updatedAt :: "Time option"

record Aggregator =
  snapshot :: Snapshot
  window :: "real list"
  capacity :: nat

text \<open>
  Modelled from the spec: the state of the missing Aggregator before the first tick, with
  price 0, every derived field 0, \<open>updatedAt\<close> unset and an empty window.
\<close>

definition NewAggregator :: "nat \<Rightarrow> Aggregator" where
  "NewAggregator N =
     \<lparr>snapshot =
        \<lparr>price = 0, previousPrice = 0, high = 0, low = 0, movingAverage = 0, change = 0,
         changePercent = 0, updatedAt = None\<rparr>,
      window = [], capacity = N\<rparr>"

text \<open>
  Modelled from the spec: the arithmetic mean that the missing Aggregator recomputes over
  the window. It is only evaluated on the window after an append; with a capacity of at
  least 1 that window is not empty.
\<close>

definition mean :: "real list \<Rightarrow> real" where
  "mean xs = sum_list xs / real (length xs)"

text \<open>
  Modelled from the spec: \<open>Ingest\<close> of the missing Aggregator, with the steps of section
  4.2 in their order: record the previous price; set the price; update high and low to
  the maximum and minimum, the first tick initialising both; recompute \<open>change\<close> and
  \<open>changePercent\<close> by the invariants of section 3; append the price to the window and
  evict the oldest entry past capacity; recompute the moving average as the mean of the
  window; set \<open>updatedAt\<close> to the current time \<open>now\<close>.
\<close>

definition Ingest :: "Aggregator \<Rightarrow> Tick \<Rightarrow> Time \<Rightarrow> Aggregator" where
  "Ingest a t now =
     (let s = snapshot a;
          first = (updatedAt s = None);
          prev = price s;
          p = tick_price t;
          hi = (if first then p else max (high s) p);
          lo = (if first then p else min (low s) p);
          ch = p - prev;
          chp = (if prev > 0 then ch / prev * 100 else 0);
          w = window a @ [p];
          w' = (if length w > capacity a then tl w else w);
          ma = mean w'
      in a\<lparr>snapshot :=
             \<lparr>price = p, previousPrice = prev, high = hi, low = lo, movingAverage = ma,
              change = ch, changePercent = chp, updatedAt = Some now\<rparr>,
           window := w'\<rparr>)"

text \<open>
  Modelled from the spec: a sequence of ticks fed to the missing Aggregator in order, each
  with the time at which it is ingested.
\<close>

fun ingest_all :: "Aggregator \<Rightarrow> (Tick \<times> Time) list \<Rightarrow> Aggregator" where
  "ingest_all a [] = a"
| "ingest_all a ((t, now) # ts) = ingest_all (Ingest a t now) ts"

text \<open>The last \<open>n\<close> elements of a sequence, all of it when it is shorter.\<close>

definition last_n :: "nat \<Rightarrow> 'a list \<Rightarrow> 'a list" where
  "last_n n xs = drop (length xs - n) xs"

text \<open>The ticks 100, 105, 95, 110 of the scenario of section 8.\<close>

definition scenario_ticks :: "(Tick \<times> Time) list" where
  "scenario_ticks =
     [(\<lparr>tick_price = 100, observedAt = 1\<rparr>, 1), (\<lparr>tick_price = 105, observedAt = 2\<rparr>, 2),
      (\<lparr>tick_price = 95, observedAt = 3\<rparr>, 3), (\<lparr>tick_price = 110, observedAt = 4\<rparr>, 4)]"

section \<open>Properties\<close>

subsection \<open>Lookup helpers\<close>

lemma GetCoinName_loop_hit:
  "distinct (map symbol cs) \<Longrightarrow> c \<in> set cs \<Longrightarrow> GetCoinName_loop cs (symbol c) = name c"
  by (induction cs) auto

lemma GetCoinShort_loop_hit:
  "distinct (map symbol cs) \<Longrightarrow> c \<in> set cs \<Longrightarrow> GetCoinShort_loop cs (symbol c) = short c"
  by (induction cs) auto

lemma GetCoinName_loop_miss:
  "sy \<notin> symbol ` set cs \<Longrightarrow> GetCoinName_loop cs sy = sy"
  by (induction cs) auto

lemma GetCoinShort_loop_miss:
  "sy \<notin> symbol ` set cs \<Longrightarrow> GetCoinShort_loop cs sy = sy"
  by (induction cs) auto

lemma coins_distinct: "distinct (map symbol coins)"
  by (simp add: coins_def)

text \<open>
  C10. For every symbol, \<open>GetCoinName\<close> and \<open>GetCoinShort\<close> return the name and the
  short label of the coin of the table that has this symbol, and return the symbol
  itself when no coin of the table has it.
\<close>

theorem GetCoin_lookup:
  "(c \<in> set coins \<longrightarrow>
      GetCoinName (symbol c) = name c \<and> GetCoinShort (symbol c) = short c) \<and>
   (sy \<notin> symbol ` set coins \<longrightarrow> GetCoinName sy = sy \<and> GetCoinShort sy = sy)"
  unfolding GetCoinName_def GetCoinShort_def
  using coins_distinct
  by (simp add: GetCoinName_loop_hit GetCoinShort_loop_hit
        GetCoinName_loop_miss GetCoinShort_loop_miss)

theorem GetCoin_lookup_witness:
  "\<lparr>symbol = ''ethusdt'', name = ''Ethereum (ETH)'', short = ''ETH''\<rparr> \<in> set coins \<and>
   ''adausdt'' \<notin> symbol ` set coins \<and>
   GetCoinName ''ethusdt'' = ''Ethereum (ETH)'' \<and> GetCoinShort ''ethusdt'' = ''ETH'' \<and>
   GetCoinName ''adausdt'' = ''adausdt'' \<and> GetCoinShort ''adausdt'' = ''adausdt''"
  using GetCoin_lookup
    [of "\<lparr>symbol = ''ethusdt'', name = ''Ethereum (ETH)'', short = ''ETH''\<rparr>" "''adausdt''"]
  by (simp add: coins_def)

subsection \<open>Coin selection\<close>

lemma coins_length: "length coins = 6"
  by (simp add: coins_def)

lemma selectModel_Update_bounds:
  assumes "0 \<le> cursor m" and "cursor m \<le> 5"
  shows "\<exists>m' c. (selectModel_Update m x :: panic + (selectModel \<times> 'm cmd)) = Inr (m', c) \<and>
           0 \<le> cursor m' \<and> cursor m' \<le> 5"
proof (cases x)
  case (KeyMsg s)
  with assms show ?thesis
    by (simp add: coins_length coins_at_def)
qed (use assms in simp_all)

lemma selectModel_run_bounds:
  "0 \<le> cursor m \<Longrightarrow> cursor m \<le> 5 \<Longrightarrow>
   \<exists>m'. selectModel_run m xs = Inr m' \<and> 0 \<le> cursor m' \<and> cursor m' \<le> 5"
proof (induction xs arbitrary: m)
  case Nil
  then show ?case by simp
next
  case (Cons x xs)
  from selectModel_Update_bounds [OF Cons.prems, of x]
  obtain m1 and c :: "unit cmd"
    where step: "selectModel_Update m x = Inr (m1, c)" and lo: "0 \<le> cursor m1"
      and hi: "cursor m1 \<le> 5"
    by blast
  from Cons.IH [OF lo hi] step show ?case by simp
qed

text \<open>
  C8. For every sequence of messages applied to the coin selection model that starts at
  cursor 0, no update panics and the cursor stays between 0 and \<open>len(coins) - 1\<close>,
  which is 5, so that \<open>coins[m.cursor]\<close> is always inside the table.
\<close>

theorem selectModel_cursor_in_bounds:
  "\<exists>m. selectModel_run selectModel_init msgs = Inr m \<and>
       0 \<le> cursor m \<and> cursor m \<le> int (length coins) - 1 \<and> int (length coins) - 1 = 5 \<and>
       coins_at (cursor m) = Inr (coins ! nat (cursor m))"
proof -
  from selectModel_run_bounds [of selectModel_init msgs]
  obtain m where "selectModel_run selectModel_init msgs = Inr m"
    and "0 \<le> cursor m" and "cursor m \<le> 5"
    by (auto simp: selectModel_init_def)
  then show ?thesis
    by (auto simp: coins_length coins_at_def)
qed

subsection \<open>float64\<close>

lemma MaxFloat64_large: "2 ^ 53 \<le> MaxFloat64"
  by (simp add: MaxFloat64_def)

lemma MaxFloat64_below_overflow: "MaxFloat64 < overflow_threshold"
  by (simp add: MaxFloat64_def overflow_threshold_def)

lemma round64_in_range: "\<bar>r\<bar> \<le> MaxFloat64 \<Longrightarrow> round64 r = Fin r"
  using MaxFloat64_below_overflow by (auto simp: round64_def)

lemma round64_small: "\<bar>r\<bar> \<le> 2 ^ 53 \<Longrightarrow> round64 r = Fin r"
  using MaxFloat64_large by (simp add: round64_in_range)

subsection \<open>Price updates of the dashboard\<close>

lemma fetch_update_data:
  "data (fetch_update m0 r m) =
     \<lparr>Price = GetPrice r, PrevPrice = Price (data m0), High = GetHigh r, Low = GetLow r,
      MovingAverage = GetMovingAverage r,
      Change =
        (if fgt (Price (data m0)) (Fin 0) then fsub (GetPrice r) (Price (data m0)) else Fin 0),
      ChangePercent =
        (if fgt (Price (data m0)) (Fin 0)
         then fmul (fdiv (fsub (GetPrice r) (Price (data m0))) (Price (data m0))) (Fin 100)
         else Fin 0),
      UpdatedAt = time_Now r\<rparr>"
  by (simp add: fetch_update_def fetchPrice_def Let_def)

text \<open>
  C1, as the code has it. After every price update the state satisfies
  \<open>change = price - previousPrice\<close> whenever \<open>previousPrice > 0\<close>; when the previous
  price is not positive, as on the first fetch where it is 0, the guard of \<open>fetchPrice\<close>
  leaves \<open>change\<close> at 0.
\<close>

theorem fetch_update_change:
  "(fgt (PrevPrice (data (fetch_update m0 r m))) (Fin 0) \<longrightarrow>
      Change (data (fetch_update m0 r m)) =
        fsub (Price (data (fetch_update m0 r m))) (PrevPrice (data (fetch_update m0 r m)))) \<and>
   (\<not> fgt (PrevPrice (data (fetch_update m0 r m))) (Fin 0) \<longrightarrow>
      Change (data (fetch_update m0 r m)) = Fin 0)"
  by (simp add: fetch_update_data)

theorem fetch_update_change_witness:
  "fgt (PrevPrice (data (fetch_update model_at_95 readings_110 model_at_95))) (Fin 0) \<and>
   Change (data (fetch_update model_at_95 readings_110 model_at_95)) = Fin 15 \<and>
   \<not> fgt (PrevPrice (data (fetch_update fresh_model readings_110 fresh_model))) (Fin 0) \<and>
   Change (data (fetch_update fresh_model readings_110 fresh_model)) = Fin 0"
  using fetch_update_change [of model_at_95 readings_110 model_at_95]
    fetch_update_change [of fresh_model readings_110 fresh_model]
  by (simp add: fetch_update_data model_at_95_def fresh_model_def readings_110_def
        newDashboardModel_def PriceData_zero_def fgt_def round64_small)

text \<open>
  The unconditional reading fails on the first fetch: the previous price is 0, the new
  price is 100, and \<open>change\<close> is 0 rather than 100.
\<close>

theorem fetch_update_change_first_fetch:
  "Change (data (fetch_update fresh_model first_readings fresh_model)) \<noteq>
   fsub (Price (data (fetch_update fresh_model first_readings fresh_model)))
     (PrevPrice (data (fetch_update fresh_model first_readings fresh_model)))"
  by (simp add: fetch_update_data fresh_model_def newDashboardModel_def PriceData_zero_def
        first_readings_def fgt_def round64_small)

text \<open>
  C2. After every price update, \<open>changePercent = change / previousPrice * 100\<close> when
  \<open>previousPrice > 0\<close>, and \<open>changePercent\<close> is exactly 0, a finite value, when
  \<open>previousPrice\<close> is 0, which is the case of the first update of a new model. The
  quotient \<open>change / previousPrice\<close> is NaN there; the guard keeps the code from
  storing it.
\<close>

theorem fetch_update_changePercent:
  "(fgt (PrevPrice (data (fetch_update m0 r m))) (Fin 0) \<longrightarrow>
      ChangePercent (data (fetch_update m0 r m)) =
        fmul (fdiv (Change (data (fetch_update m0 r m)))
                (PrevPrice (data (fetch_update m0 r m)))) (Fin 100)) \<and>
   (PrevPrice (data (fetch_update m0 r m)) = Fin 0 \<longrightarrow>
      ChangePercent (data (fetch_update m0 r m)) = Fin 0 \<and>
      is_finite (ChangePercent (data (fetch_update m0 r m))) \<and>
      fdiv (Change (data (fetch_update m0 r m))) (PrevPrice (data (fetch_update m0 r m))) = NaN) \<and>
   ChangePercent (data (fetch_update (newDashboardModel sy srv) r m)) = Fin 0"
  by (simp add: fetch_update_data newDashboardModel_def PriceData_zero_def fgt_def)

theorem fetch_update_changePercent_witness:
  "fgt (PrevPrice (data (fetch_update model_at_100 readings_125 model_at_100))) (Fin 0) \<and>
   ChangePercent (data (fetch_update model_at_100 readings_125 model_at_100)) = Fin 25 \<and>
   PrevPrice (data (fetch_update fresh_model readings_125 fresh_model)) = Fin 0 \<and>
   ChangePercent (data (fetch_update fresh_model readings_125 fresh_model)) = Fin 0"
  using fetch_update_changePercent [of model_at_100 readings_125 model_at_100]
    fetch_update_changePercent [of fresh_model readings_125 fresh_model]
  by (simp add: fetch_update_data model_at_100_def fresh_model_def readings_125_def
        newDashboardModel_def PriceData_zero_def fgt_def round64_small)

subsection \<open>The price history window\<close>

lemma Update_history_le:
  "length (history m) \<le> 20 \<Longrightarrow> length (history (fst (dashboardModel_Update m x))) \<le> 20"
  by (cases x) (auto simp: Let_def)

lemma run_history_le:
  "length (history m) \<le> 20 \<Longrightarrow> length (history (dashboardModel_run m xs)) \<le> 20"
  by (induction xs arbitrary: m) (simp_all add: Update_history_le)

lemma run_append:
  "dashboardModel_run m (xs @ ys) = dashboardModel_run (dashboardModel_run m xs) ys"
  by (induction xs arbitrary: m) simp_all

lemma Update_price_evict:
  "fgt (Price d) (Fin 0) \<Longrightarrow> length (history m) = 20 \<Longrightarrow>
   history (fst (dashboardModel_Update m (priceMsg d))) = tl (history m) @ [Price d]"
  by (cases "history m") (simp_all add: Let_def)

lemma Update_price_append:
  "fgt (Price d) (Fin 0) \<Longrightarrow> length (history m) < 20 \<Longrightarrow>
   history (fst (dashboardModel_Update m (priceMsg d))) = history m @ [Price d]"
  by (simp add: Let_def)

text \<open>
  C3. For every sequence of messages applied to a new dashboard model, the history holds
  at most 20 prices after every update. A positive price that arrives when the history
  holds 20 entries evicts the oldest one; below 20 entries it is appended.
\<close>

theorem history_window_bounded:
  "length (history (dashboardModel_run (newDashboardModel sy srv) msgs)) \<le> 20 \<and>
   (fgt (Price d) (Fin 0) \<and>
    length (history (dashboardModel_run (newDashboardModel sy srv) msgs)) = 20 \<longrightarrow>
      history (dashboardModel_run (newDashboardModel sy srv) (msgs @ [priceMsg d])) =
        tl (history (dashboardModel_run (newDashboardModel sy srv) msgs)) @ [Price d]) \<and>
   (fgt (Price d) (Fin 0) \<and>
    length (history (dashboardModel_run (newDashboardModel sy srv) msgs)) < 20 \<longrightarrow>
      history (dashboardModel_run (newDashboardModel sy srv) (msgs @ [priceMsg d])) =
        history (dashboardModel_run (newDashboardModel sy srv) msgs) @ [Price d])"
proof -
  have "length (history (newDashboardModel sy srv)) \<le> 20"
    by (simp add: newDashboardModel_def)
  then show ?thesis
    by (simp add: run_append run_history_le Update_price_evict Update_price_append
          del: dashboardModel_Update.simps)
qed

theorem history_window_bounded_witness:
  "fgt (Price (tick_of (Fin 2))) (Fin 0) \<and>
   length (history (dashboardModel_run (newDashboardModel ''btcusdt'' ())
      (replicate 20 (priceMsg (tick_of (Fin 1)))))) = 20 \<and>
   history (dashboardModel_run (newDashboardModel ''btcusdt'' ())
      (replicate 20 (priceMsg (tick_of (Fin 1))) @ [priceMsg (tick_of (Fin 2))])) =
     replicate 19 (Fin 1) @ [Fin 2] \<and>
   length (history (dashboardModel_run (newDashboardModel ''btcusdt'' ()) [])) < 20 \<and>
   history (dashboardModel_run (newDashboardModel ''btcusdt'' ())
      ([] @ [priceMsg (tick_of (Fin 2))])) = [Fin 2]"
  using history_window_bounded
      [of "''btcusdt''" "()" "replicate 20 (priceMsg (tick_of (Fin 1)))" "tick_of (Fin 2)"]
    history_window_bounded [of "''btcusdt''" "()" "[]" "tick_of (Fin 2)"]
  by (simp add: tick_of_def PriceData_zero_def newDashboardModel_def Let_def eval_nat_numeral
        fgt_def)

subsection \<open>The new dashboard model\<close>

lemma Update_no_price:
  "\<not> is_priceMsg x \<Longrightarrow> data (fst (dashboardModel_Update m x)) = data m \<and>
     history (fst (dashboardModel_Update m x)) = history m"
  by (cases x) auto

lemma run_no_price:
  "list_all (\<lambda>x. \<not> is_priceMsg x) xs \<Longrightarrow>
   data (dashboardModel_run m xs) = data m \<and> history (dashboardModel_run m xs) = history m"
  by (induction xs arbitrary: m) (simp_all add: Update_no_price)

text \<open>
  C4. A new dashboard model holds price 0, every derived field 0, \<open>updatedAt\<close> at the
  zero instant (unset) and an empty history, and it stays in this state for as long as
  no price message has arrived.
\<close>

theorem newDashboardModel_zero:
  "Price (data (newDashboardModel sy srv)) = Fin 0 \<and>
   PrevPrice (data (newDashboardModel sy srv)) = Fin 0 \<and>
   High (data (newDashboardModel sy srv)) = Fin 0 \<and>
   Low (data (newDashboardModel sy srv)) = Fin 0 \<and>
   MovingAverage (data (newDashboardModel sy srv)) = Fin 0 \<and>
   Change (data (newDashboardModel sy srv)) = Fin 0 \<and>
   ChangePercent (data (newDashboardModel sy srv)) = Fin 0 \<and>
   UpdatedAt (data (newDashboardModel sy srv)) = 0 \<and>
   history (newDashboardModel sy srv) = [] \<and>
   (list_all (\<lambda>x. \<not> is_priceMsg x) msgs \<longrightarrow>
      data (dashboardModel_run (newDashboardModel sy srv) msgs) = PriceData_zero \<and>
      history (dashboardModel_run (newDashboardModel sy srv) msgs) = [])"
  by (simp add: run_no_price) (simp add: newDashboardModel_def PriceData_zero_def)

theorem newDashboardModel_zero_witness:
  "list_all (\<lambda>x. \<not> is_priceMsg x) [KeyMsg ''x'', tickMsg 5, OtherMsg, KeyMsg ''q''] \<and>
   data (dashboardModel_run (newDashboardModel ''btcusdt'' ())
           [KeyMsg ''x'', tickMsg 5, OtherMsg, KeyMsg ''q'']) = PriceData_zero \<and>
   history (dashboardModel_run (newDashboardModel ''btcusdt'' ())
           [KeyMsg ''x'', tickMsg 5, OtherMsg, KeyMsg ''q'']) = []"
  using newDashboardModel_zero
    [of "''btcusdt''" "()" "[KeyMsg ''x'', tickMsg 5, OtherMsg, KeyMsg ''q'']"]
  by simp

subsection \<open>The sparkline\<close>

lemma chars_length: "length chars = 8"
  by (simp add: chars_def)

lemma MaxFloat64_ge_7: "7 \<le> MaxFloat64"
  using MaxFloat64_large by simp

lemma minmax_loop_finite:
  assumes "a \<le> b"
  shows "\<exists>a' b'. minmax_loop (map Fin xs) (Fin a, Fin b) = (Fin a', Fin b') \<and>
           a' \<le> a \<and> b \<le> b' \<and> (\<forall>x\<in>set xs. a' \<le> x \<and> x \<le> b') \<and>
           a' \<in> insert a (set xs) \<and> b' \<in> insert b (set xs)"
  using assms
proof (induction xs arbitrary: a b)
  case Nil
  then show ?case by simp
next
  case (Cons x xs)
  let ?a = "if x < a then x else a" and ?b = "if b < x then x else b"
  have le: "?a \<le> ?b" using Cons.prems by auto
  from Cons.IH [OF le] obtain a' b' where
    run: "minmax_loop (map Fin xs) (Fin ?a, Fin ?b) = (Fin a', Fin b')"
    and bnd: "a' \<le> ?a" "?b \<le> b'" "\<forall>y\<in>set xs. a' \<le> y \<and> y \<le> b'"
    and mem: "a' \<in> insert ?a (set xs)" "b' \<in> insert ?b (set xs)"
    by blast
  have step: "minmax_loop (map Fin (x # xs)) (Fin a, Fin b) = (Fin a', Fin b')"
    using run by (cases "x < a"; cases "b < x") (simp_all add: fgt_def)
  from bnd mem show ?case
    unfolding step by (auto split: if_splits)
qed

lemma glyph_index_finite:
  assumes "0 < r" and "r \<le> MaxFloat64" and "0 \<le> x - a" and "x - a \<le> r"
  shows "0 \<le> glyph_index (Fin a) (Fin r) (Fin x) \<and> glyph_index (Fin a) (Fin r) (Fin x) < 8"
proof -
  define n where "n = (x - a) / r"
  from assms have n0: "0 \<le> n" and n1: "n \<le> 1"
    by (simp_all add: n_def)
  then have x0: "0 \<le> n * 7" and x7: "n * 7 \<le> 7"
    by linarith+
  from assms have sub: "fsub (Fin x) (Fin a) = Fin (x - a)"
    by (simp add: round64_in_range)
  from n0 n1 MaxFloat64_ge_7 have quot: "round64 n = Fin n"
    by (simp add: round64_in_range)
  from x0 x7 MaxFloat64_ge_7 have prod: "round64 (n * 7) = Fin (n * 7)"
    by (simp add: round64_in_range)
  from x0 have f0: "0 \<le> \<lfloor>n * 7\<rfloor>" by simp
  from x7 have "\<lfloor>n * 7\<rfloor> \<le> \<lfloor>7::real\<rfloor>" by (rule floor_mono)
  then have f7: "\<lfloor>n * 7\<rfloor> \<le> 7" by simp
  have dv: "fdiv (Fin (x - a)) (Fin r) = Fin n"
    using assms(1) quot unfolding n_def by simp
  have "glyph_index (Fin a) (Fin r) (Fin x) =
          (if 8 \<le> int_of_float64 (Fin (n * 7)) then 7 else int_of_float64 (Fin (n * 7)))"
    by (simp add: glyph_index_def chars_length Let_def sub dv prod
          del: fsub.simps fdiv.simps)
  moreover from x0 f0 f7 have "int_of_float64 (Fin (n * 7)) = \<lfloor>n * 7\<rfloor>"
    by (simp add: int_of_float64_def)
  ultimately show ?thesis
    using f0 f7 by simp
qed

lemma spark_loop_total:
  "\<forall>i\<in>set js. 0 \<le> glyph_index mn rang (h ! i) \<and> glyph_index mn rang (h ! i) < 8 \<Longrightarrow>
   \<exists>out. spark_loop h mn rang js spark = Inr out \<and> length out = length spark + length js"
proof (induction js arbitrary: spark)
  case Nil
  then show ?case by simp
next
  case (Cons i js)
  from Cons.prems have "\<exists>c. chars_at (glyph_index mn rang (h ! i)) = Inr c"
    by (simp add: chars_at_def chars_length)
  then obtain c where c: "chars_at (glyph_index mn rang (h ! i)) = Inr c" ..
  from Cons.prems have rest:
    "\<forall>i\<in>set js. 0 \<le> glyph_index mn rang (h ! i) \<and> glyph_index mn rang (h ! i) < 8"
    by simp
  note ih = Cons.IH [OF rest]
  from c ih [of "spark @ [Render upStyle [c]]"] ih [of "spark @ [Render downStyle [c]]"]
    ih [of "spark @ [Render valueStyle [c]]"]
  show ?case
    by (simp add: Let_def)
qed

text \<open>
  On a history of finite positive prices the function returns, in the exact arithmetic
  of the model: the minimum and maximum are entries of the history, the range does not
  overflow, the normalised value lies between 0 and 1, and every index lies between 0
  and 7.
\<close>

lemma renderSparkline_finite_prices:
  assumes hist: "history m = map Fin xs"
    and pos: "\<forall>x\<in>set xs. 0 < x \<and> x \<le> MaxFloat64"
  shows "\<exists>out. renderSparkline m = Inr out"
proof (cases "length xs < 2")
  case True
  then show ?thesis by (simp add: renderSparkline_def hist)
next
  case False
  then obtain x0 xs' where xs: "xs = x0 # xs'"
    by (cases xs) auto
  have h0: "map Fin xs ! 0 = Fin x0"
    by (simp add: xs)
  from minmax_loop_finite [of x0 x0 xs] obtain a b where
    mm: "sparkline_minmax (map Fin xs) = (Fin a, Fin b)"
    and bnd: "\<forall>x\<in>set xs. a \<le> x \<and> x \<le> b"
    and mem: "a \<in> set xs" "b \<in> set xs"
    by (auto simp: sparkline_minmax_def h0 xs)
  from mem pos have apos: "0 < a" and bmax: "b \<le> MaxFloat64"
    by auto
  from bnd mem have ab: "a \<le> b" by auto
  define r where "r = (if b - a = 0 then 1 else b - a)"
  from ab apos bmax have "fsub (Fin b) (Fin a) = Fin (b - a)"
    by (simp add: round64_in_range)
  then have rg: "sparkline_rang (map Fin xs) = Fin r"
    by (simp add: sparkline_rang_def mm feq_def r_def)
  from ab have rpos: "0 < r"
    by (simp add: r_def)
  from ab apos bmax MaxFloat64_ge_7 have rmax: "r \<le> MaxFloat64"
    by (simp add: r_def)
  have idx: "0 \<le> glyph_index (Fin a) (Fin r) (map Fin xs ! i) \<and>
             glyph_index (Fin a) (Fin r) (map Fin xs ! i) < 8" if "i < length xs" for i
  proof -
    from that have "xs ! i \<in> set xs" by simp
    with bnd have "a \<le> xs ! i" and "xs ! i \<le> b" by auto
    then have "0 \<le> xs ! i - a" and "xs ! i - a \<le> r"
      by (auto simp: r_def)
    from glyph_index_finite [OF rpos rmax this] that show ?thesis
      by simp
  qed
  then have "\<forall>i\<in>set [0..<length xs].
      0 \<le> glyph_index (Fin a) (Fin r) (map Fin xs ! i) \<and>
      glyph_index (Fin a) (Fin r) (map Fin xs ! i) < 8"
    by simp
  from spark_loop_total [OF this, of "[]"] False show ?thesis
    by (auto simp: renderSparkline_def hist mm rg)
qed

text \<open>
  C9, at the input where the code fails. The prices 1 and \<open>+Inf\<close> both pass the test
  \<open>msg.Price > 0\<close> and form the history. The minimum is 1 and the maximum \<open>+Inf\<close>, so
  the range is \<open>+Inf\<close> and is not replaced. For the second entry the normalised value is
  \<open>+Inf / +Inf\<close>, which is NaN; its conversion to \<open>int\<close> is the smallest \<open>int\<close>; the
  only test on the index is \<open>idx >= len(chars)\<close>, so the negative index reaches
  \<open>chars[idx]\<close> and \<open>renderSparkline\<close> panics instead of returning.
\<close>

theorem renderSparkline_infinite_price:
  "history (dashboardModel_run fresh_model infinite_price_msgs) = [Fin 1, PInf] \<and>
   sparkline_minmax [Fin 1, PInf] = (Fin 1, PInf) \<and>
   sparkline_rang [Fin 1, PInf] = PInf \<and>
   fdiv (fsub PInf (Fin 1)) PInf = NaN \<and>
   glyph_index (Fin 1) PInf PInf = - (2 ^ 63) \<and>
   chars_at (glyph_index (Fin 1) PInf PInf) = Inl IndexOutOfRange \<and>
   renderSparkline (dashboardModel_run fresh_model infinite_price_msgs) = Inl IndexOutOfRange"
proof -
  have h: "history (dashboardModel_run fresh_model infinite_price_msgs) = [Fin 1, PInf]"
    by (simp add: infinite_price_msgs_def fresh_model_def newDashboardModel_def tick_of_def
          PriceData_zero_def fgt_def Let_def)
  have mm: "sparkline_minmax [Fin 1, PInf] = (Fin 1, PInf)"
    by (simp add: sparkline_minmax_def fgt_def)
  have rg: "sparkline_rang [Fin 1, PInf] = PInf"
    by (simp add: sparkline_rang_def mm feq_def)
  have g0: "glyph_index (Fin 1) PInf (Fin 1) = 0"
    by (simp add: glyph_index_def chars_length int_of_float64_def round64_small)
  have g1: "glyph_index (Fin 1) PInf PInf = - (2 ^ 63)"
    by (simp add: glyph_index_def chars_length int_of_float64_def int_indefinite_def)
  have c0: "chars_at 0 = Inr 0x2581"
    by (simp add: chars_at_def chars_def)
  have c1: "chars_at (- (2 ^ 63)) = Inl IndexOutOfRange"
    by (simp add: chars_at_def)
  have "renderSparkline (dashboardModel_run fresh_model infinite_price_msgs) =
          Inl IndexOutOfRange"
    by (simp add: renderSparkline_def h mm rg g0 g1 c0 chars_at_def upt_conv_Cons fgt_def
          Let_def)
  with h mm rg g1 c1 show ?thesis
    by simp
qed

subsection \<open>The Aggregator\<close>

lemma ingest_all_append:
  "ingest_all a (ts @ us) = ingest_all (ingest_all a ts) us"
  by (induction ts arbitrary: a) auto

lemma Ingest_observed: "updatedAt (snapshot (Ingest a t now)) = Some now"
  by (simp add: Ingest_def Let_def)

lemma Ingest_bracket:
  "low (snapshot (Ingest a t now)) \<le> tick_price t \<and>
   tick_price t \<le> high (snapshot (Ingest a t now)) \<and>
   price (snapshot (Ingest a t now)) = tick_price t"
  by (simp add: Ingest_def Let_def)

lemma Ingest_monotone:
  "updatedAt (snapshot a) \<noteq> None \<Longrightarrow>
   high (snapshot a) \<le> high (snapshot (Ingest a t now)) \<and>
   low (snapshot (Ingest a t now)) \<le> low (snapshot a)"
  by (auto simp: Ingest_def Let_def)

lemma ingest_all_monotone:
  "updatedAt (snapshot a) \<noteq> None \<Longrightarrow>
   high (snapshot a) \<le> high (snapshot (ingest_all a ts)) \<and>
   low (snapshot (ingest_all a ts)) \<le> low (snapshot a)"
proof (induction a ts rule: ingest_all.induct)
  case (1 a)
  then show ?case by simp
next
  case (2 a t now ts)
  have "updatedAt (snapshot (Ingest a t now)) \<noteq> None"
    by (simp add: Ingest_observed)
  from "2.IH" [OF this] Ingest_monotone [OF "2.prems", of t now] show ?case
    by auto
qed

text \<open>
  C5. For every sequence of ticks fed to a new Aggregator, after each \<open>Ingest\<close> of a
  tick the state satisfies \<open>high \<ge> price of the tick \<ge> low\<close>; from that state on, over
  any further ticks, \<open>high\<close> does not decrease and \<open>low\<close> does not increase; and the
  first tick sets both to its price.
\<close>

theorem Ingest_high_low:
  "low (snapshot (ingest_all (NewAggregator N) (ts @ [(t, now)]))) \<le> tick_price t \<and>
   tick_price t \<le> high (snapshot (ingest_all (NewAggregator N) (ts @ [(t, now)]))) \<and>
   price (snapshot (ingest_all (NewAggregator N) (ts @ [(t, now)]))) = tick_price t \<and>
   high (snapshot (ingest_all (NewAggregator N) (ts @ [(t, now)])))
     \<le> high (snapshot (ingest_all (NewAggregator N) (ts @ [(t, now)] @ us))) \<and>
   low (snapshot (ingest_all (NewAggregator N) (ts @ [(t, now)] @ us)))
     \<le> low (snapshot (ingest_all (NewAggregator N) (ts @ [(t, now)]))) \<and>
   high (snapshot (ingest_all (NewAggregator N) [(t, now)])) = tick_price t \<and>
   low (snapshot (ingest_all (NewAggregator N) [(t, now)])) = tick_price t"
proof -
  let ?a = "ingest_all (NewAggregator N) ts"
  have obs: "updatedAt (snapshot (Ingest ?a t now)) \<noteq> None"
    by (simp add: Ingest_observed)
  have first: "high (snapshot (Ingest (NewAggregator N) t now)) = tick_price t \<and>
               low (snapshot (Ingest (NewAggregator N) t now)) = tick_price t"
    by (simp add: Ingest_def NewAggregator_def Let_def)
  from Ingest_bracket [of ?a t now] ingest_all_monotone [OF obs, of us] first
  show ?thesis
    by (simp add: ingest_all_append)
qed

lemma Ingest_window:
  "window (Ingest a t now) =
     (if length (window a) + 1 > capacity a then tl (window a @ [tick_price t])
      else window a @ [tick_price t])"
  by (simp add: Ingest_def Let_def)

lemma Ingest_capacity: "capacity (Ingest a t now) = capacity a"
  by (simp add: Ingest_def Let_def)

lemma Ingest_movingAverage:
  "movingAverage (snapshot (Ingest a t now)) = mean (window (Ingest a t now))"
  by (simp add: Ingest_def Let_def)

lemma last_n_snoc:
  "last_n n (xs @ [x]) =
     (if length (last_n n xs) + 1 > n then tl (last_n n xs @ [x]) else last_n n xs @ [x])"
proof (cases "length xs < n")
  case True
  then show ?thesis by (simp add: last_n_def)
next
  case False
  then have eq: "Suc (length xs) - n = Suc (length xs - n)" by simp
  have "tl (drop (length xs - n) xs @ [x]) = tl (drop (length xs - n) (xs @ [x]))"
    by simp
  also have "\<dots> = drop (Suc (length xs - n)) (xs @ [x])"
    by (simp only: drop_Suc tl_drop)
  finally show ?thesis using False
    by (simp add: last_n_def eq)
qed

lemma ingest_all_window:
  "window (ingest_all (NewAggregator N) ts) = last_n N (map (tick_price \<circ> fst) ts) \<and>
   capacity (ingest_all (NewAggregator N) ts) = N"
proof (induction ts rule: rev_induct)
  case Nil
  then show ?case by (simp add: NewAggregator_def last_n_def)
next
  case (snoc x ts)
  obtain t now where x: "x = (t, now)" by (cases x)
  from snoc show ?case
    by (simp add: x ingest_all_append Ingest_window Ingest_capacity last_n_snoc)
qed

lemma ingest_all_movingAverage:
  "ts \<noteq> [] \<Longrightarrow>
   movingAverage (snapshot (ingest_all a ts)) = mean (window (ingest_all a ts))"
proof (induction ts rule: rev_induct)
  case Nil
  then show ?case by simp
next
  case (snoc x ts)
  obtain t now where x: "x = (t, now)" by (cases x)
  show ?case
    by (simp add: x ingest_all_append Ingest_movingAverage)
qed

text \<open>
  C6. After ingesting the ticks \<open>p1..pk\<close> into a new Aggregator of capacity \<open>N\<close>, the
  moving average is the arithmetic mean of \<open>p1..pk\<close> when \<open>k \<le> N\<close>, and the mean of
  the last \<open>N\<close> of them when \<open>k > N\<close>.
\<close>

theorem movingAverage_window_mean:
  assumes "0 < N" and "ts \<noteq> []"
  shows "(length ts \<le> N \<longrightarrow>
            movingAverage (snapshot (ingest_all (NewAggregator N) ts)) =
              sum_list (map (tick_price \<circ> fst) ts) / real (length ts)) \<and>
         (N < length ts \<longrightarrow>
            movingAverage (snapshot (ingest_all (NewAggregator N) ts)) =
              sum_list (last_n N (map (tick_price \<circ> fst) ts)) / real N \<and>
            length (last_n N (map (tick_price \<circ> fst) ts)) = N)"
  using assms
  by (simp add: ingest_all_movingAverage ingest_all_window mean_def last_n_def)

theorem movingAverage_window_mean_witness:
  "(0::nat) < 2 \<and> take 3 scenario_ticks \<noteq> [] \<and> 2 < length (take 3 scenario_ticks) \<and>
   movingAverage (snapshot (ingest_all (NewAggregator 2) (take 3 scenario_ticks))) = 100 \<and>
   (0::nat) < 20 \<and> scenario_ticks \<noteq> [] \<and> length scenario_ticks \<le> 20 \<and>
   movingAverage (snapshot (ingest_all (NewAggregator 20) scenario_ticks)) = 205 / 2"
  using movingAverage_window_mean [of 2 "take 3 scenario_ticks"]
    movingAverage_window_mean [of 20 scenario_ticks]
  by (simp add: scenario_ticks_def last_n_def)

text \<open>
  C7. Ingesting the ticks 100, 105, 95, 110 in order into a new Aggregator whose window
  holds at least 4 entries gives high 110, low 95, price 110, previous price 95, change
  15, a change in percent of 300/19, which is 15.789 to three decimals, and a moving
  average equal to the mean of the four values.
\<close>

theorem scenario_100_105_95_110:
  assumes "4 \<le> N"
  shows "high (snapshot (ingest_all (NewAggregator N) scenario_ticks)) = 110 \<and>
         low (snapshot (ingest_all (NewAggregator N) scenario_ticks)) = 95 \<and>
         price (snapshot (ingest_all (NewAggregator N) scenario_ticks)) = 110 \<and>
         previousPrice (snapshot (ingest_all (NewAggregator N) scenario_ticks)) = 95 \<and>
         change (snapshot (ingest_all (NewAggregator N) scenario_ticks)) = 15 \<and>
         changePercent (snapshot (ingest_all (NewAggregator N) scenario_ticks)) = 300 / 19 \<and>
         \<bar>changePercent (snapshot (ingest_all (NewAggregator N) scenario_ticks)) - 15789 / 1000\<bar>
           < 1 / 1000 \<and>
         movingAverage (snapshot (ingest_all (NewAggregator N) scenario_ticks)) =
           (100 + 105 + 95 + 110) / 4"
  using assms
  by (simp add: scenario_ticks_def NewAggregator_def Ingest_def mean_def Let_def)

theorem scenario_100_105_95_110_witness:
  "(4::nat) \<le> 20 \<and>
   high (snapshot (ingest_all (NewAggregator 20) scenario_ticks)) = 110 \<and>
   low (snapshot (ingest_all (NewAggregator 20) scenario_ticks)) = 95 \<and>
   previousPrice (snapshot (ingest_all (NewAggregator 20) scenario_ticks)) = 95 \<and>
   change (snapshot (ingest_all (NewAggregator 20) scenario_ticks)) = 15 \<and>
   movingAverage (snapshot (ingest_all (NewAggregator 20) scenario_ticks)) = 205 / 2"
  using scenario_100_105_95_110 [of 20]
  by simp

end
